theory Spec2Isabelle
  imports Complex_Main
begin

section \<open>Numbers and the JavaScript built-ins the services use\<close>

text \<open>
  The services compute with JavaScript numbers, which are IEEE doubles. Coordinates,
  distances and speeds are modelled as the reals: \<open>Math.sin\<close>, \<open>Math.cos\<close>,
  \<open>Math.sqrt\<close> and \<open>Math.PI\<close> are the functions and the constant of analysis, and
  \<open>Math.atan2\<close> and the remainder operator \<open>%\<close> are written out below. Rounding is
  left out, with two exceptions, where what a double can be decides a branch of the code:
  a depth, which comes from \<open>parseFloat\<close> or from the JSON cache and can be \<open>NaN\<close>,
  an infinity or \<open>null\<close>, is a \<open>number\<close> below; and the squares whose sum
  \<open>suggestHazardAvoidance\<close> and \<open>distanceFromLineSegment\<close> test for zero underflow as
  doubles do.
\<close>

datatype number = NaN | MinusInfinity | Finite real | PlusInfinity

fun js_less :: "number \<Rightarrow> number \<Rightarrow> bool" where
  \<comment> \<open>\<open>a < b\<close> on numbers: false when either is \<open>NaN\<close>\<close>
  "js_less NaN b = False"
| "js_less a NaN = False"
| "js_less a MinusInfinity = False"
| "js_less MinusInfinity b = True"
| "js_less PlusInfinity b = False"
| "js_less (Finite v) PlusInfinity = True"
| "js_less (Finite v) (Finite w) = (v < w)"

fun js_ge :: "number \<Rightarrow> number \<Rightarrow> bool" where
  \<comment> \<open>\<open>a >= b\<close> on numbers: false when either is \<open>NaN\<close>\<close>
  "js_ge NaN b = False"
| "js_ge a NaN = False"
| "js_ge a b = (\<not> js_less a b)"

definition product :: "real \<Rightarrow> real \<Rightarrow> real" where
  \<comment> \<open>\<open>a * b\<close> where the result is tested for zero: the smallest positive double is
      \<open>2^-1074\<close>, and a product of magnitude at most \<open>2^-1075\<close> is rounded to zero\<close>
  "product a b = (if \<bar>a * b\<bar> \<le> 1 / 2 ^ 1075 then 0 else a * b)"

definition atan2 :: "real \<Rightarrow> real \<Rightarrow> real" where
  "atan2 y x =
     (if 0 < x then arctan (y / x)
      else if x < 0 then (if 0 \<le> y then arctan (y / x) + pi else arctan (y / x) - pi)
      else if 0 < y then pi / 2
      else if y < 0 then - (pi / 2)
      else 0)"

definition trunc :: "real \<Rightarrow> int" where
  "trunc q = (if 0 \<le> q then \<lfloor>q\<rfloor> else \<lceil>q\<rceil>)"

definition js_rem :: "real \<Rightarrow> real \<Rightarrow> real" where
  \<comment> \<open>\<open>a % b\<close>: the remainder takes the sign of the dividend.\<close>
  "js_rem a b = a - b * of_int (trunc (a / b))"

section \<open>Navigation types\<close>

text \<open>
  TypeScript's structural object types are records that extend one another: whatever has
  \<open>lat\<close> and \<open>lon\<close> can be passed where \<open>{lat, lon}\<close> is expected. A field whose
  name is taken in HOL or by another record carries a prefix (\<open>wid\<close> for a waypoint's
  \<open>id\<close>, \<open>wtype\<close> for its \<open>type\<close>). A \<open>Date\<close> is a real number of milliseconds.
\<close>

record latlon =
  lat :: real
  lon :: real

record named_point = latlon +
  name :: string

datatype waypointType = Start | Waypoint | Destination

record waypoint = named_point +
  wid :: string
  timestamp :: "real option"
  wtype :: waypointType

text \<open>
  A route holds its waypoint array. The type parameter is what the field holds: the array's
  elements where only the value matters, or a reference into a heap of arrays where a
  function copies and updates arrays (\<open>addWaypoint\<close>).
\<close>

record 'w route =
  rid :: string
  rname :: string
  waypoints :: 'w
  totalDistance :: real
  estimatedTime :: real
  createdAt :: real
  averageSpeed :: real

record position = latlon +
  heading :: real
  speed :: real

record navigationState =
  currentPosition :: position
  nsHeading :: real
  nsSpeed :: real
  nextWaypoint :: "waypoint option"
  distanceToNext :: real
  bearingToNext :: real
  etaToNext :: real
  progress :: real

section \<open>Route planning service: geodesy\<close>

definition toRadians :: "real \<Rightarrow> real" where
  "toRadians degrees = (degrees * pi) / 180"

definition toDegrees :: "real \<Rightarrow> real" where
  "toDegrees radians = (radians * 180) / pi"

definition calculateDistance :: "real \<Rightarrow> real \<Rightarrow> real \<Rightarrow> real \<Rightarrow> real" where
  "calculateDistance lat1 lon1 lat2 lon2 =
     (let R = 3440.065;
          dLat = toRadians (lat2 - lat1);
          dLon = toRadians (lon2 - lon1);
          a = sin (dLat / 2) * sin (dLat / 2) +
              cos (toRadians lat1) * cos (toRadians lat2) * sin (dLon / 2) * sin (dLon / 2);
          c = 2 * atan2 (sqrt a) (sqrt (1 - a))
      in R * c)"

definition calculateBearing :: "real \<Rightarrow> real \<Rightarrow> real \<Rightarrow> real \<Rightarrow> real" where
  "calculateBearing lat1 lon1 lat2 lon2 =
     (let dLon = toRadians (lon2 - lon1);
          y = sin dLon * cos (toRadians lat2);
          x = cos (toRadians lat1) * sin (toRadians lat2) -
              sin (toRadians lat1) * cos (toRadians lat2) * cos dLon;
          bearing = atan2 y x;
          bearing = toDegrees bearing
      in js_rem (bearing + 360) 360)"

section \<open>Route planning service: routes\<close>

definition legDistance :: "'a latlon_scheme list \<Rightarrow> nat \<Rightarrow> real" where
  \<comment> \<open>the body of both distance loops: the leg from waypoint \<open>i\<close> to waypoint \<open>i + 1\<close>\<close>
  "legDistance ws i =
     calculateDistance (lat (ws ! i)) (lon (ws ! i)) (lat (ws ! (i + 1))) (lon (ws ! (i + 1)))"

definition calculateRouteDistance :: "'a latlon_scheme list \<Rightarrow> real" where
  \<comment> \<open>\<open>for (i = 0; i < waypoints.length - 1; i++) totalDistance += ...\<close>; every index read is in range\<close>
  "calculateRouteDistance ws =
     fold (\<lambda>i totalDistance. totalDistance + legDistance ws i) [0 ..< length ws - 1] 0"

definition calculateETA :: "real \<Rightarrow> real \<Rightarrow> real" where
  "calculateETA distanceNM speedKnots =
     (if speedKnots = 0 then 0 else (distanceNM / speedKnots) * 60)"

definition element :: "'a list \<Rightarrow> nat \<Rightarrow> 'a option" where
  \<comment> \<open>\<open>xs[i]\<close>: \<open>undefined\<close> past the end of the array\<close>
  "element xs i = (if i < length xs then Some (xs ! i) else None)"

definition calculateNavigationState ::
  "position \<Rightarrow> waypoint list route \<Rightarrow> nat \<Rightarrow> navigationState" where
  "calculateNavigationState cp r currentWaypointIndex =
     (case element (waypoints r) (currentWaypointIndex + 1) of
        None \<Rightarrow>
          \<lparr>currentPosition = cp, nsHeading = heading cp, nsSpeed = speed cp,
           nextWaypoint = None, distanceToNext = 0, bearingToNext = 0, etaToNext = 0,
           progress = 100\<rparr>
      | Some nxt \<Rightarrow>
          (let dToNext = calculateDistance (lat cp) (lon cp) (lat nxt) (lon nxt);
               bToNext = calculateBearing (lat cp) (lon cp) (lat nxt) (lon nxt);
               eta = calculateETA dToNext (speed cp);
               total = calculateRouteDistance (waypoints r);
               completedDistance =
                 fold (\<lambda>i completed. completed + legDistance (waypoints r) i)
                   [0 ..< currentWaypointIndex] 0;
               prog = (completedDistance / total) * 100
           in \<lparr>currentPosition = cp, nsHeading = heading cp, nsSpeed = speed cp,
               nextWaypoint = Some nxt, distanceToNext = dToNext, bearingToNext = bToNext,
               etaToNext = eta, progress = prog\<rparr>))"

definition isNearWaypoint :: "real \<Rightarrow> real \<Rightarrow> real \<Rightarrow> real \<Rightarrow> real \<Rightarrow> bool" where
  "isNearWaypoint currentLat currentLon waypointLat waypointLon thresholdNM =
     (calculateDistance currentLat currentLon waypointLat waypointLon \<le> thresholdNM)"

subsection \<open>Arrays by reference\<close>

text \<open>
  \<open>addWaypoint\<close> copies the route's array and splices into the copy. To say that the
  caller's array is untouched, arrays live in a heap: a reference is an index into the
  list of the arrays allocated so far, and allocation appends.
\<close>

type_synonym ref = nat
type_synonym heap = "waypoint list list"

definition alloc :: "heap \<Rightarrow> waypoint list \<Rightarrow> heap \<times> ref" where
  "alloc h xs = (h @ [xs], length h)"

definition splice :: "'a list \<Rightarrow> int \<Rightarrow> 'a \<Rightarrow> 'a list" where
  \<comment> \<open>\<open>xs.splice(start, 0, item)\<close>: a negative start counts from the end, and the start
      is clamped to the array\<close>
  "splice xs start item =
     (let len = int (length xs);
          actualStart = nat (if start < 0 then max (len + start) 0 else min start len)
      in take actualStart xs @ [item] @ drop actualStart xs)"

definition spliceAt :: "heap \<Rightarrow> ref \<Rightarrow> int \<Rightarrow> waypoint \<Rightarrow> heap" where
  "spliceAt h a start item = h[a := splice (h ! a) start item]"

definition addWaypoint ::
  "heap \<Rightarrow> string \<Rightarrow> ref route \<Rightarrow> named_point \<Rightarrow> int option \<Rightarrow> heap \<times> ref route" where
  \<comment> \<open>\<open>generatedId\<close> is the value of \<open>generateId()\<close> (clock and random number)\<close>
  "addWaypoint h generatedId r wp insertIndex =
     (let newWaypoint = \<lparr>lat = lat wp, lon = lon wp, name = name wp, wid = generatedId,
                          timestamp = None, wtype = Waypoint\<rparr>;
          (h1, newWaypoints) = alloc h (h ! waypoints r);
          h2 = (case insertIndex of
                  Some k \<Rightarrow> spliceAt h1 newWaypoints k newWaypoint
                | None \<Rightarrow>
                    spliceAt h1 newWaypoints (int (length (h1 ! newWaypoints)) - 1) newWaypoint);
          total = calculateRouteDistance (h2 ! newWaypoints);
          estimated = total / averageSpeed r
      in (h2, r\<lparr>waypoints := newWaypoints, totalDistance := total, estimatedTime := estimated\<rparr>))"

text \<open>
  The sum of the distances of consecutive pairs, by recursion on the sequence: what the
  route's \<open>totalDistance\<close> is specified to be.
\<close>

fun consecutivePairDistances :: "'a latlon_scheme list \<Rightarrow> real" where
  "consecutivePairDistances (a # b # rest) =
     calculateDistance (lat a) (lon a) (lat b) (lon b) + consecutivePairDistances (b # rest)"
| "consecutivePairDistances _ = 0"

section \<open>Nautical chart service\<close>

datatype hazardType =
    reef | shallow_water | wreck | rock | restricted_area | military_zone
  | anchorage_prohibited | fishing_prohibited | speed_limit | traffic_separation
  | cable_area | pipeline

datatype severity = info | warning | danger | critical

datatype dataSource = osm | noaa | ukho | user

text \<open>
  The \<open>depth\<close> field of a hazard: absent, \<open>null\<close> (what the JSON cache stores for a
  \<open>NaN\<close> or an infinity), or a number.
\<close>

datatype depthField = Undefined | Null | Number number

record nauticalHazard = latlon +
  hid :: string
  htype :: hazardType
  radius :: "real option"
  polygon :: "latlon list option"
  depth :: depthField
  description :: "string option"
  severity :: severity
  source :: dataSource

record attachedHazard =
  hazard :: nauticalHazard
  distanceFromRoute :: real
  waypointSegment :: nat

text \<open>
  The warning and recommendation strings are built from templates with formatted numbers.
  Each constructor stands for one template and carries the values put into it: the
  rounded distance, the hazard's description or type, and the two waypoint numbers; the
  minimum depth and the draft; the hazard counts.
\<close>

datatype warningText =
    CriticalWarning int string nat nat
  | DangerWarning int string nat nat
  | PlainWarning string int nat nat
  | ShallowWaterWarning number real

datatype recommendationText =
    NoMajorHazards
  | HazardsDetected nat
  | CriticalHazardsDetected nat
  | VerifyWithOfficialCharts
  | MonitorVHF

record routeAnalysis =
  isSafe :: bool
  hazards :: "attachedHazard list"
  minDepth :: "number option"
  warnings :: "warningText list"
  recommendations :: "recommendationText list"

fun typeName :: "hazardType \<Rightarrow> string" where
  "typeName reef = ''reef''"
| "typeName shallow_water = ''shallow_water''"
| "typeName wreck = ''wreck''"
| "typeName rock = ''rock''"
| "typeName restricted_area = ''restricted_area''"
| "typeName military_zone = ''military_zone''"
| "typeName anchorage_prohibited = ''anchorage_prohibited''"
| "typeName fishing_prohibited = ''fishing_prohibited''"
| "typeName speed_limit = ''speed_limit''"
| "typeName traffic_separation = ''traffic_separation''"
| "typeName cable_area = ''cable_area''"
| "typeName pipeline = ''pipeline''"

subsection \<open>Depth hints of a feature\<close>



subsection \<open>Distance from a route leg\<close>

record xy =
  xMeters :: real
  yMeters :: real

definition toMeters :: "real \<Rightarrow> real \<Rightarrow> xy" where
  "toMeters la lo = \<lparr>xMeters = lo * 111320 * cos ((la * pi) / 180), yMeters = la * 111320\<rparr>"

definition distanceFromLineSegment ::
  "'a latlon_scheme \<Rightarrow> 'b latlon_scheme \<Rightarrow> 'c latlon_scheme \<Rightarrow> real" where
  "distanceFromLineSegment point lineStart lineEnd =
     (let p = toMeters (lat point) (lon point);
          a = toMeters (lat lineStart) (lon lineStart);
          b = toMeters (lat lineEnd) (lon lineEnd);
          dx = xMeters b - xMeters a;
          dy = yMeters b - yMeters a;
          lengthSquared = product dx dx + product dy dy
      in if lengthSquared = 0 then
           (let diffX = xMeters p - xMeters a; diffY = yMeters p - yMeters a
            in sqrt (diffX * diffX + diffY * diffY))
         else
           (let t = ((xMeters p - xMeters a) * dx + (yMeters p - yMeters a) * dy) / lengthSquared;
                t = max 0 (min 1 t);
                closestX = xMeters a + t * dx;
                closestY = yMeters a + t * dy;
                distX = xMeters p - closestX;
                distY = yMeters p - closestY
            in sqrt (distX * distX + distY * distY)))"

subsection \<open>Route analysis\<close>

text \<open>
  \<open>Math.max()\<close> and \<open>Math.min()\<close> of no arguments are the infinities, so the corners
  of the bounding box are numbers.
\<close>

definition mathMax :: "real list \<Rightarrow> number" where
  "mathMax xs = (case xs of [] \<Rightarrow> MinusInfinity | v # vs \<Rightarrow> Finite (fold max vs v))"

definition mathMin :: "real list \<Rightarrow> number" where
  "mathMin xs = (case xs of [] \<Rightarrow> PlusInfinity | v # vs \<Rightarrow> Finite (fold min vs v))"

fun shifted :: "number \<Rightarrow> real \<Rightarrow> number" where
  "shifted (Finite v) d = Finite (v + d)"
| "shifted e d = e"

record boundingBox =
  north :: number
  south :: number
  east :: number
  west :: number

definition hazardBuffer :: "nauticalHazard \<Rightarrow> real" where
  \<comment> \<open>\<open>hazard.radius || 100\<close>: the default also replaces a radius of 0\<close>
  "hazardBuffer h = (case radius h of None \<Rightarrow> 100 | Some r \<Rightarrow> if r = 0 then 100 else r)"

definition describe :: "nauticalHazard \<Rightarrow> string" where
  \<comment> \<open>\<open>hazard.description || hazard.type\<close>\<close>
  "describe h =
     (case description h of
        None \<Rightarrow> typeName (htype h)
      | Some d \<Rightarrow> if d = [] then typeName (htype h) else d)"

text \<open>The variables the two nested loops update.\<close>

record scan =
  routeHazards :: "attachedHazard list"
  scanWarnings :: "warningText list"
  scanMinDepth :: "number option"

definition checkHazard ::
  "real \<Rightarrow> 'a latlon_scheme list \<Rightarrow> nat \<Rightarrow> nauticalHazard \<Rightarrow> scan \<Rightarrow> scan" where
  \<comment> \<open>the body of the inner loop, for leg \<open>i\<close> and one hazard\<close>
  "checkHazard safetyMargin ws i h sc =
     (let start = ws ! i;
          finish = ws ! (i + 1);
          distance = distanceFromLineSegment \<lparr>lat = lat h, lon = lon h\<rparr> start finish;
          sc1 =
            (if distance < safetyMargin + hazardBuffer h then
               sc\<lparr>routeHazards := routeHazards sc @
                     [\<lparr>hazard = h, distanceFromRoute = distance, waypointSegment = i\<rparr>],
                  scanWarnings := scanWarnings sc @
                     (if severity h = critical then
                        [CriticalWarning (round distance) (describe h) (i + 1) (i + 2)]
                      else if severity h = danger then
                        [DangerWarning (round distance) (describe h) (i + 1) (i + 2)]
                      else if severity h = warning then
                        [PlainWarning (describe h) (round distance) (i + 1) (i + 2)]
                      else [])\<rparr>
             else sc)
      in case depth h of
           Undefined \<Rightarrow> sc1
         | Null \<Rightarrow>
             \<comment> \<open>\<open>null !== undefined\<close>, and \<open>null < minDepth\<close> compares 0\<close>
             (case scanMinDepth sc1 of
                None \<Rightarrow> sc1\<lparr>scanMinDepth := None\<rparr>
              | Some m \<Rightarrow> if js_less (Finite 0) m then sc1\<lparr>scanMinDepth := None\<rparr> else sc1)
         | Number d \<Rightarrow>
             (case scanMinDepth sc1 of
                None \<Rightarrow> sc1\<lparr>scanMinDepth := Some d\<rparr>
              | Some m \<Rightarrow> if js_less d m then sc1\<lparr>scanMinDepth := Some d\<rparr> else sc1))"

definition paddedBoundingBox :: "'a latlon_scheme list \<Rightarrow> boundingBox" where
  \<comment> \<open>the first statements of \<open>analyzeRouteHazards\<close>: the box around the route, padded by 0.1 degrees\<close>
  "paddedBoundingBox ws =
     (let lats = map lat ws;
          lons = map lon ws
      in \<lparr>north = shifted (mathMax lats) 0.1, south = shifted (mathMin lats) (- 0.1),
          east = shifted (mathMax lons) 0.1, west = shifted (mathMin lons) (- 0.1)\<rparr>)"

definition analyzeRouteHazards ::
  "(boundingBox \<Rightarrow> nauticalHazard list) \<Rightarrow> 'a latlon_scheme list \<Rightarrow> real \<Rightarrow> real
     \<Rightarrow> routeAnalysis" where
  \<comment> \<open>\<open>fetchNauticalHazards\<close> is the awaited fetch (network or cache); the defaults of the
      last two parameters are \<open>vesselDraft = 2.0\<close> and \<open>safetyMargin = 500\<close>\<close>
  "analyzeRouteHazards fetchNauticalHazards ws vesselDraft safetyMargin =
     (let bbox = paddedBoundingBox ws;
          fetched = fetchNauticalHazards bbox;
          sc = fold (\<lambda>i sc. fold (checkHazard safetyMargin ws i) fetched sc)
                 [0 ..< length ws - 1]
                 \<lparr>routeHazards = [], scanWarnings = [], scanMinDepth = None\<rparr>;
          found = routeHazards sc;
          shallow =
            (case scanMinDepth sc of
               None \<Rightarrow> []
             | Some m \<Rightarrow>
                 if js_less m (Finite (vesselDraft + 1.0)) then [ShallowWaterWarning m vesselDraft]
                 else []);
          criticalCount = length (filter (\<lambda>a. severity (hazard a) = critical) found);
          recs =
            (if length found = 0 then [NoMajorHazards]
             else [HazardsDetected (length found)] @
                  (if criticalCount > 0 then [CriticalHazardsDetected criticalCount] else [])) @
            [VerifyWithOfficialCharts, MonitorVHF];
          safe =
            (length (filter (\<lambda>a. severity (hazard a) = critical) found) = 0 \<and>
             (case scanMinDepth sc of
                None \<Rightarrow> True
              | Some m \<Rightarrow> js_ge m (Finite (vesselDraft + 1.0))))
      in \<lparr>isSafe = safe, hazards = found, minDepth = scanMinDepth sc,
          warnings = scanWarnings sc @ shallow, recommendations = recs\<rparr>)"


definition requiresRerouting :: "routeAnalysis \<Rightarrow> bool" where
  "requiresRerouting analysis =
     (\<not> isSafe analysis \<or>
      list_ex (\<lambda>a. severity (hazard a) = critical) (hazards analysis) \<or>
      (case minDepth analysis of None \<Rightarrow> False | Some m \<Rightarrow> js_less m (Finite 1.0)))"

section \<open>Offline navigation system\<close>

datatype alertType =
    waypoint_approaching | waypoint_reached | off_course | destination_reached
  | low_speed | course_correction | gps_error | permission_denied

datatype alertSeverity = alert_info | alert_warning | alert_success | alert_error

datatype turn = TurnLeft | TurnRight

text \<open>
  An alert's message, one constructor for each template: the waypoint's name and the
  distance of \<open>Approaching ... NM\<close>, the waypoint's name, the destination's name, the
  turn and the rounded bearing of \<open>Off course: Turn ... to ...\<close>.
\<close>

datatype alertText =
    GpsNotAvailable
  | Approaching string real
  | WaypointReachedText string
  | DestinationReachedText string
  | OffCourse turn int
  | VeryLowSpeed

record navigationAlert =
  atype :: alertType
  message :: alertText
  aseverity :: alertSeverity
  atimestamp :: real
  autoClose :: "bool option"

record offlineNavigationConfig =
  updateIntervalMs :: real
  waypointThresholdNM :: real
  enableVoiceAlerts :: bool
  enableVibration :: bool
  speedSmoothingFactor :: real

record historyEntry = latlon +
  htimestamp :: real
  hspeed :: real

record cachedPosition = historyEntry +
  cheading :: real

record coords =
  latitude :: real
  longitude :: real
  gpsSpeed :: "real option"
  gpsHeading :: "real option"

datatype payload =
    NoPayload
  | RoutePayload "waypoint list route"
  | NavigationUpdate navigationState
  | AlertPayload navigationAlert
  | WaypointReachedPayload waypoint nat
  | DestinationPayload waypoint
  | HeadingPayload real

type_synonym callback = nat

text \<open>
  What the system does to the outside: a call of \<open>emit\<close> with the callback that the
  registry held for the event at that moment (\<open>None\<close>: nobody is called), a vibration
  pattern, a spoken sentence. Callbacks are opaque and taken not to call back into the
  system. Console output is left out.
\<close>

datatype effect =
    Emit string payload "callback option"
  | Vibrate "nat list"
  | Speak string

datatype listenerFn = handleOrientationFn | boundFn nat

datatype error = GeolocationNotSupported | TypeError

text \<open>
  The state is the object's private fields, followed by what it reaches of the browser:
  which capabilities exist, the position watches and the \<open>deviceorientation\<close> listeners
  (function and capture flag) that are registered, the three keys of the local storage,
  and the effects so far. \<open>new Date()\<close> is an argument of each entry point.
\<close>

record navSystem =
  watchId :: "nat option"
  route :: "waypoint list route option"
  currentWaypointIndex :: nat
  isNavigating :: bool
  config :: offlineNavigationConfig
  listeners :: "string \<rightharpoonup> callback"
  navigationHistory :: "historyEntry list"
  currentHeading :: real
  currentSpeed :: real
  smoothedSpeeds :: "real list"
  geolocationSupported :: bool
  deviceOrientationSupported :: bool
  vibrateSupported :: bool
  speechSupported :: bool
  activeWatches :: "nat list"
  nextWatchId :: nat
  orientationListeners :: "(listenerFn \<times> bool) list"
  boundFunctions :: nat
  storedActiveRoute :: "waypoint list route option"
  storedStartTime :: "real option"
  storedPositions :: "cachedPosition list"
  effects :: "effect list"

type_synonym outcome = "error option \<times> navSystem"

definition on :: "string \<Rightarrow> callback \<Rightarrow> navSystem \<Rightarrow> navSystem" where
  "on event cb s = s\<lparr>listeners := (listeners s)(event \<mapsto> cb)\<rparr>"

definition off :: "string \<Rightarrow> navSystem \<Rightarrow> navSystem" where
  "off event s = s\<lparr>listeners := (listeners s)(event := None)\<rparr>"

definition emit :: "string \<Rightarrow> payload \<Rightarrow> navSystem \<Rightarrow> navSystem" where
  "emit event d s = s\<lparr>effects := effects s @ [Emit event d (listeners s event)]\<rparr>"

definition emitAlert :: "navigationAlert \<Rightarrow> navSystem \<Rightarrow> navSystem" where
  "emitAlert a s = emit ''alert'' (AlertPayload a) s"

definition stopNavigation :: "navSystem \<Rightarrow> navSystem" where
  \<comment> \<open>\<open>removeEventListener\<close> is given \<open>this.handleOrientation\<close> and no capture flag\<close>
  "stopNavigation s =
     (let s1 = (case watchId s of
                  Some w \<Rightarrow> s\<lparr>activeWatches := removeAll w (activeWatches s), watchId := None\<rparr>
                | None \<Rightarrow> s);
          s2 = (if deviceOrientationSupported s1 then
                  s1\<lparr>orientationListeners :=
                       removeAll (handleOrientationFn, False) (orientationListeners s1)\<rparr>
                else s1);
          s3 = s2\<lparr>isNavigating := False, route := None, currentWaypointIndex := 0\<rparr>
      in emit ''navigationStopped'' NoPayload s3)"

definition pauseNavigation :: "navSystem \<Rightarrow> navSystem" where
  "pauseNavigation s = emit ''navigationPaused'' NoPayload (s\<lparr>isNavigating := False\<rparr>)"

definition resumeNavigation :: "navSystem \<Rightarrow> navSystem" where
  "resumeNavigation s =
     (case route s of
        Some r \<Rightarrow> emit ''navigationResumed'' NoPayload (s\<lparr>isNavigating := True\<rparr>)
      | None \<Rightarrow> s)"

definition requestPermissions :: "navSystem \<Rightarrow> outcome" where
  \<comment> \<open>the motion permission prompt only writes to the console\<close>
  "requestPermissions s =
     (if \<not> geolocationSupported s then (Some GeolocationNotSupported, s) else (None, s))"

definition startGPSTracking :: "real \<Rightarrow> navSystem \<Rightarrow> navSystem" where
  "startGPSTracking now s =
     (if \<not> geolocationSupported s then
        emitAlert \<lparr>atype = gps_error, message = GpsNotAvailable, aseverity = alert_warning,
                   atimestamp = now, autoClose = None\<rparr> s
      else s\<lparr>watchId := Some (nextWatchId s),
             activeWatches := activeWatches s @ [nextWatchId s],
             nextWatchId := nextWatchId s + 1\<rparr>)"

definition startCompassTracking :: "navSystem \<Rightarrow> navSystem" where
  \<comment> \<open>\<open>this.handleOrientation.bind(this)\<close> is a new function at every call\<close>
  "startCompassTracking s =
     (if deviceOrientationSupported s then
        s\<lparr>orientationListeners := orientationListeners s @ [(boundFn (boundFunctions s), True)],
          boundFunctions := boundFunctions s + 1\<rparr>
      else s)"

definition cacheRouteData :: "real \<Rightarrow> waypoint list route \<Rightarrow> navSystem \<Rightarrow> navSystem" where
  "cacheRouteData now r s = s\<lparr>storedActiveRoute := Some r, storedStartTime := Some now\<rparr>"

definition cachePosition :: "cachedPosition \<Rightarrow> navSystem \<Rightarrow> navSystem" where
  "cachePosition p s =
     (let cachedPositions = storedPositions s @ [p];
          cachedPositions =
            (if length cachedPositions > 100 then tl cachedPositions else cachedPositions)
      in s\<lparr>storedPositions := cachedPositions\<rparr>)"

definition startNavigation :: "real \<Rightarrow> waypoint list route \<Rightarrow> navSystem \<Rightarrow> outcome" where
  "startNavigation now r s =
     (let s1 = (if isNavigating s then stopNavigation s else s);
          s2 = s1\<lparr>route := Some r, currentWaypointIndex := 0, isNavigating := True,
                  navigationHistory := []\<rparr>
      in case requestPermissions s2 of
           (Some e, s3) \<Rightarrow> (Some e, s3)
         | (None, s3) \<Rightarrow>
             (let s4 = startGPSTracking now s3;
                  s5 = startCompassTracking s4;
                  s6 = emit ''navigationStarted'' (RoutePayload r) s5
              in (None, cacheRouteData now r s6)))"

definition smoothSpeed :: "real \<Rightarrow> navSystem \<Rightarrow> real \<times> navSystem" where
  "smoothSpeed newSpeed s =
     (let speeds = smoothedSpeeds s @ [newSpeed];
          speeds = (if length speeds > 5 then tl speeds else speeds);
          total = fold (\<lambda>b a. a + b) speeds 0
      in (total / real (length speeds), s\<lparr>smoothedSpeeds := speeds\<rparr>))"

definition handleDestinationReached :: "real \<Rightarrow> navSystem \<Rightarrow> outcome" where
  \<comment> \<open>reading \<open>name\<close> of the last element of an empty array throws\<close>
  "handleDestinationReached now s =
     (case route s of
        None \<Rightarrow> (None, s)
      | Some r \<Rightarrow>
          (let s1 = (if enableVibration (config s) \<and> vibrateSupported s then
                       s\<lparr>effects := effects s @ [Vibrate [300, 100, 300, 100, 300]]\<rparr>
                     else s)
           in case element (waypoints r) (length (waypoints r) - 1) of
                None \<Rightarrow> (Some TypeError, s1)
              | Some dest \<Rightarrow>
                  (let s2 = (if enableVoiceAlerts (config s1) \<and> speechSupported s1 then
                               s1\<lparr>effects := effects s1 @
                                     [Speak (''Destination reached: '' @ name dest)]\<rparr>
                             else s1);
                       s3 = emitAlert \<lparr>atype = destination_reached,
                                         message = DestinationReachedText (name dest),
                                         aseverity = alert_success, atimestamp = now,
                                         autoClose = None\<rparr> s2;
                       s4 = emit ''destinationReached'' (DestinationPayload dest) s3
                   in (None, stopNavigation s4))))"

definition handleWaypointReached :: "real \<Rightarrow> waypoint \<Rightarrow> navSystem \<Rightarrow> outcome" where
  "handleWaypointReached now w s =
     (let s1 = (if enableVibration (config s) \<and> vibrateSupported s then
                  s\<lparr>effects := effects s @ [Vibrate [200, 100, 200]]\<rparr>
                else s);
          s2 = (if enableVoiceAlerts (config s1) \<and> speechSupported s1 then
                  s1\<lparr>effects := effects s1 @ [Speak (''Waypoint reached: '' @ name w)]\<rparr>
                else s1);
          s3 = s2\<lparr>currentWaypointIndex := currentWaypointIndex s2 + 1\<rparr>;
          destinationReached =
            (case route s3 of
               None \<Rightarrow> False
             | Some r \<Rightarrow> int (currentWaypointIndex s3) \<ge> int (length (waypoints r)) - 1)
      in if destinationReached then handleDestinationReached now s3
         else
           (let s4 = emitAlert \<lparr>atype = waypoint_reached, message = WaypointReachedText (name w),
                                  aseverity = alert_success, atimestamp = now,
                                  autoClose = None\<rparr> s3
            in (None, emit ''waypointReached''
                        (WaypointReachedPayload w (currentWaypointIndex s4)) s4)))"

definition checkWaypointProximity ::
  "real \<Rightarrow> real \<Rightarrow> real \<Rightarrow> navigationState \<Rightarrow> navSystem \<Rightarrow> outcome" where
  "checkWaypointProximity now la lo navState s =
     (case nextWaypoint navState of
        None \<Rightarrow> (None, s)
      | Some nxt \<Rightarrow>
          (let s1 = (if distanceToNext navState < 0.5 \<and>
                        distanceToNext navState > waypointThresholdNM (config s) then
                       emitAlert \<lparr>atype = waypoint_approaching,
                                  message = Approaching (name nxt) (distanceToNext navState),
                                  aseverity = alert_info, atimestamp = now,
                                  autoClose = Some True\<rparr> s
                     else s)
           in if isNearWaypoint la lo (lat nxt) (lon nxt) (waypointThresholdNM (config s1))
              then handleWaypointReached now nxt s1
              else (None, s1)))"

definition checkCourseDeviation :: "real \<Rightarrow> navigationState \<Rightarrow> navSystem \<Rightarrow> navSystem" where
  "checkCourseDeviation now navState s =
     (case nextWaypoint navState of
        None \<Rightarrow> s
      | Some nxt \<Rightarrow>
          (let headingDifference = \<bar>bearingToNext navState - nsHeading navState\<bar>;
               normalizedDiff = min headingDifference (360 - headingDifference);
               s1 = (if normalizedDiff > 45 then
                       emitAlert \<lparr>atype = course_correction,
                                  message = OffCourse
                                    (if normalizedDiff > 180 then TurnLeft else TurnRight)
                                    (round (bearingToNext navState)),
                                  aseverity = alert_warning, atimestamp = now,
                                  autoClose = Some True\<rparr> s
                     else s)
           in if nsSpeed navState < 0.5 then
                emitAlert \<lparr>atype = low_speed, message = VeryLowSpeed, aseverity = alert_info,
                           atimestamp = now, autoClose = Some True\<rparr> s1
              else s1))"

definition handlePositionUpdate :: "real \<Rightarrow> coords \<Rightarrow> navSystem \<Rightarrow> outcome" where
  "handlePositionUpdate now c s =
     (case route s of
        None \<Rightarrow> (None, s)
      | Some r \<Rightarrow>
          if \<not> isNavigating s then (None, s)
          else
            (let s1 = (case gpsHeading c of Some h \<Rightarrow> s\<lparr>currentHeading := h\<rparr> | None \<Rightarrow> s);
                 speedKnots = (case gpsSpeed c of
                                 None \<Rightarrow> 0
                               | Some v \<Rightarrow> if v = 0 then 0 else v * 1.94384);
                 (smoothed, s2) = smoothSpeed speedKnots s1;
                 s3 = s2\<lparr>currentSpeed := smoothed\<rparr>;
                 history = navigationHistory s3 @
                   [\<lparr>lat = latitude c, lon = longitude c, htimestamp = now,
                     hspeed = currentSpeed s3\<rparr>];
                 history = (if length history > 100 then tl history else history);
                 s4 = s3\<lparr>navigationHistory := history\<rparr>;
                 navState = calculateNavigationState
                   \<lparr>lat = latitude c, lon = longitude c, heading = currentHeading s4,
                    speed = currentSpeed s4\<rparr> r (currentWaypointIndex s4);
                 s5 = emit ''navigationUpdate'' (NavigationUpdate navState) s4
             in case checkWaypointProximity now (latitude c) (longitude c) navState s5 of
                  (Some e, s6) \<Rightarrow> (Some e, s6)
                | (None, s6) \<Rightarrow>
                    (let s7 = checkCourseDeviation now navState s6
                     in (None, cachePosition
                           \<lparr>lat = latitude c, lon = longitude c, htimestamp = now,
                            hspeed = currentSpeed s7, cheading = currentHeading s7\<rparr> s7))))"

definition handleOrientation :: "real option \<Rightarrow> navSystem \<Rightarrow> navSystem" where
  "handleOrientation alpha s =
     (case alpha of
        Some a \<Rightarrow> emit ''headingUpdate'' (HeadingPayload a) (s\<lparr>currentHeading := a\<rparr>)
      | None \<Rightarrow> s)"



section \<open>Notions of the specification\<close>

text \<open>
  A hazard lies within the safety buffer of leg \<open>i\<close>: its distance from the leg is less
  than the safety margin plus its radius.
\<close>

definition withinBuffer :: "real \<Rightarrow> 'a latlon_scheme list \<Rightarrow> nat \<Rightarrow> nauticalHazard \<Rightarrow> bool" where
  "withinBuffer safetyMargin ws i h =
     (distanceFromLineSegment \<lparr>lat = lat h, lon = lon h\<rparr> (ws ! i) (ws ! (i + 1))
        < safetyMargin + hazardBuffer h)"

text \<open>The entry that the analysis records for a hazard attached to leg \<open>i\<close>.\<close>

abbreviation attach :: "'a latlon_scheme list \<Rightarrow> nat \<Rightarrow> nauticalHazard \<Rightarrow> attachedHazard" where
  "attach ws i h \<equiv>
     \<lparr>hazard = h,
      distanceFromRoute = distanceFromLineSegment \<lparr>lat = lat h, lon = lon h\<rparr> (ws ! i) (ws ! (i + 1)),
      waypointSegment = i\<rparr>"




text \<open>
  An insert index that puts the new waypoint strictly inside a sequence of \<open>n\<close>
  waypoints: omitted (before the destination), from 1 to \<open>n - 1\<close>, or counted from the
  end, from \<open>- (n - 1)\<close> to \<open>- 1\<close>.
\<close>

definition insidePosition :: "nat \<Rightarrow> int option \<Rightarrow> bool" where
  "insidePosition n insertIndex =
     (case insertIndex of
        None \<Rightarrow> True
      | Some k \<Rightarrow> (1 \<le> k \<and> k \<le> int n - 1) \<or> (- (int n - 1) \<le> k \<and> k \<le> - 1))"

section \<open>Example data\<close>

abbreviation exampleStart :: waypoint where
  "exampleStart \<equiv>
     \<lparr>lat = 0, lon = 0, name = ''A'', wid = ''start'', timestamp = None, wtype = Start\<rparr>"

abbreviation exampleDestination :: waypoint where
  "exampleDestination \<equiv>
     \<lparr>lat = 0, lon = 1, name = ''B'', wid = ''destination'', timestamp = None,
      wtype = Destination\<rparr>"

abbreviation exampleRoute :: "waypoint list route" where
  "exampleRoute \<equiv>
     \<lparr>rid = ''r1'', rname = ''A to B'', waypoints = [exampleStart, exampleDestination],
      totalDistance = 0, estimatedTime = 0, createdAt = 0, averageSpeed = 5\<rparr>"

abbreviation exampleRouteRef :: "ref route" where
  "exampleRouteRef \<equiv>
     \<lparr>rid = ''r1'', rname = ''A to B'', waypoints = 0, totalDistance = 0, estimatedTime = 0,
      createdAt = 0, averageSpeed = 5\<rparr>"

abbreviation exampleHeap :: heap where
  "exampleHeap \<equiv> [[exampleStart, exampleDestination]]"

abbreviation examplePoint :: named_point where
  "examplePoint \<equiv> \<lparr>lat = 1, lon = 0.5, name = ''C''\<rparr>"

definition defaultConfig :: offlineNavigationConfig where
  \<comment> \<open>the constructor's defaults\<close>
  "defaultConfig =
     \<lparr>updateIntervalMs = 1000, waypointThresholdNM = 0.1, enableVoiceAlerts = True,
      enableVibration = True, speedSmoothingFactor = 0.3\<rparr>"

definition constructed :: "offlineNavigationConfig \<Rightarrow> navSystem" where
  \<comment> \<open>a newly constructed system, in a browser that has every capability\<close>
  "constructed cfg =
     \<lparr>watchId = None, route = None, currentWaypointIndex = 0, isNavigating = False,
      config = cfg, listeners = Map.empty, navigationHistory = [], currentHeading = 0,
      currentSpeed = 0, smoothedSpeeds = [], geolocationSupported = True,
      deviceOrientationSupported = True, vibrateSupported = True, speechSupported = True,
      activeWatches = [], nextWatchId = 1, orientationListeners = [], boundFunctions = 0,
      storedActiveRoute = None, storedStartTime = None, storedPositions = [],
      effects = []\<rparr>"

abbreviation listeningSystem :: navSystem where
  "listeningSystem \<equiv> on ''alert'' 1 (on ''destinationReached'' 2 (constructed defaultConfig))"



abbreviation farRock :: "depthField \<Rightarrow> nauticalHazard" where
  "farRock d \<equiv>
     \<lparr>lat = 0, lon = 5, hid = ''osm-2'', htype = rock, radius = Some 50,
      polygon = None, depth = d, description = None, severity = danger, source = osm\<rparr>"


section \<open>Properties of the geodesy functions\<close>

text \<open>
  Claim C9 says that the distance from a point to itself is 0, that the distance is
  symmetric, and that the bearing lies in [0, 360). Over the reals all three hold, as
  the lemmas of this section show: there the haversine term \<open>a\<close> of \<open>calculateDistance\<close>
  lies between 0 and 1. The code computes \<open>a\<close> in doubles and does not clamp it. At the
  valid, nearly antipodal pair (-87.5, -180) and (87.5, 0) the double is
  1.0000000000000002, \<open>Math.sqrt(1 - a)\<close> is \<open>NaN\<close>, and so is the distance in both
  directions; \<open>NaN == NaN\<close> is false, so the symmetry of the claim fails on the code
  there. That value is a matter of rounding, which the reals of this theory do not have.
\<close>

lemma atan2_range: "- pi < atan2 y x \<and> atan2 y x \<le> pi"
proof -
  have a: "- (pi / 2) < arctan (y / x)" "arctan (y / x) < pi / 2"
    by (rule arctan_lbound, rule arctan_ubound)
  show ?thesis
  proof (cases "0 < x")
    case True
    then show ?thesis using a pi_gt_zero by (simp add: atan2_def)
  next
    case nx: False
    show ?thesis
    proof (cases "x < 0")
      case xn: True
      show ?thesis
      proof (cases "0 \<le> y")
        case True
        then have "y / x \<le> 0" using xn by (simp add: divide_nonneg_neg)
        then have "arctan (y / x) \<le> 0" by (simp add: arctan_le_zero_iff)
        then show ?thesis using a True xn pi_gt_zero by (simp add: atan2_def)
      next
        case False
        then have "0 < y / x" using xn by (simp add: divide_neg_neg)
        then have "0 < arctan (y / x)" by (simp add: zero_less_arctan_iff)
        then show ?thesis using a False xn pi_gt_zero by (simp add: atan2_def)
      qed
    next
      case False
      have "x = 0" using False nx by simp
      moreover have h: "- (pi / 2) \<le> pi" "- pi < - (pi / 2)" "pi / 2 \<le> pi" "- pi < pi / 2"
        using pi_gt_zero by linarith+
      ultimately show ?thesis using pi_gt_zero by (simp add: atan2_def h)
    qed
  qed
qed

lemma js_rem_range: "0 \<le> a \<Longrightarrow> 0 < b \<Longrightarrow> 0 \<le> js_rem a b \<and> js_rem a b < b"
proof -
  assume a: "0 \<le> a" and b: "0 < b"
  then have q: "0 \<le> a / b" by simp
  have f1: "of_int \<lfloor>a / b\<rfloor> \<le> a / b" by simp
  have f2: "a / b < of_int \<lfloor>a / b\<rfloor> + 1" by linarith
  from f1 b have "b * of_int \<lfloor>a / b\<rfloor> \<le> b * (a / b)"
    by (intro mult_left_mono) simp_all
  then have "b * of_int \<lfloor>a / b\<rfloor> \<le> a" using b by simp
  moreover from f2 b have "b * (a / b) < b * (of_int \<lfloor>a / b\<rfloor> + 1)"
    by (intro mult_strict_left_mono) simp_all
  then have "a < b * (of_int \<lfloor>a / b\<rfloor> + 1)" using b by simp
  ultimately show ?thesis using q by (simp add: js_rem_def trunc_def algebra_simps)
qed


lemma sin_half_sym:
  "sin (toRadians (u - v) / 2) * sin (toRadians (u - v) / 2)
     = sin (toRadians (v - u) / 2) * sin (toRadians (v - u) / 2)"
proof -
  have "toRadians (u - v) / 2 = - (toRadians (v - u) / 2)"
    by (simp add: toRadians_def field_simps)
  then have "sin (toRadians (u - v) / 2) = - sin (toRadians (v - u) / 2)"
    by (simp only: sin_minus)
  then show ?thesis by simp
qed

lemma calculateDistance_commute: "calculateDistance la lo lb lob = calculateDistance lb lob la lo"
proof -
  have "sin (toRadians (lb - la) / 2) * sin (toRadians (lb - la) / 2) +
          cos (toRadians la) * cos (toRadians lb) * sin (toRadians (lob - lo) / 2) * sin (toRadians (lob - lo) / 2)
      = sin (toRadians (la - lb) / 2) * sin (toRadians (la - lb) / 2) +
          cos (toRadians lb) * cos (toRadians la) * sin (toRadians (lo - lob) / 2) * sin (toRadians (lo - lob) / 2)"
    using sin_half_sym[of lb la] sin_half_sym[of lob lo] by (simp add: mult.assoc mult.left_commute)
  then show ?thesis
    unfolding calculateDistance_def Let_def by (simp only:)
qed

lemma calculateBearing_range: "0 \<le> calculateBearing a b c d \<and> calculateBearing a b c d < 360"
proof -
  define y where "y = sin (toRadians (d - b)) * cos (toRadians c)"
  define x where "x = cos (toRadians a) * sin (toRadians c) -
              sin (toRadians a) * cos (toRadians c) * cos (toRadians (d - b))"
  have r: "- pi < atan2 y x" "atan2 y x \<le> pi" using atan2_range by auto
  have "- 180 < toDegrees (atan2 y x)"
    using r(1) pi_gt_zero by (simp add: toDegrees_def pos_less_divide_eq)
  then have "0 \<le> toDegrees (atan2 y x) + 360" by simp
  then have "0 \<le> js_rem (toDegrees (atan2 y x) + 360) 360 \<and> js_rem (toDegrees (atan2 y x) + 360) 360 < 360"
    by (intro js_rem_range) simp_all
  then show ?thesis
    by (simp add: calculateBearing_def Let_def x_def y_def)
qed

section \<open>Rerouting\<close>

text \<open>
  Claim C2. \<open>requiresRerouting\<close> is true exactly when the analysis is not safe, or one
  of its attached hazards is critical, or its minimum depth is known and below 1.0, a
  floor that does not depend on the vessel's draft.
\<close>

theorem C2_requiresRerouting_iff:
  "requiresRerouting analysis \<longleftrightarrow>
     (\<not> isSafe analysis \<or>
      (\<exists>a \<in> set (hazards analysis). severity (hazard a) = critical) \<or>
      (\<exists>m. minDepth analysis = Some m \<and> js_less m (Finite 1.0)))"
  by (cases "minDepth analysis") (simp_all add: requiresRerouting_def list_ex_iff)

theorem C2_requiresRerouting_witness:
  "requiresRerouting
     \<lparr>isSafe = True, hazards = [], minDepth = Some (Finite 0), warnings = [],
      recommendations = []\<rparr> \<and>
   \<not> requiresRerouting
     \<lparr>isSafe = True, hazards = [], minDepth = Some (Finite 2), warnings = [],
      recommendations = []\<rparr>"
  using C2_requiresRerouting_iff
    [of "\<lparr>isSafe = True, hazards = [], minDepth = Some (Finite 0), warnings = [],
         recommendations = []\<rparr>"]
    C2_requiresRerouting_iff
    [of "\<lparr>isSafe = True, hazards = [], minDepth = Some (Finite 2), warnings = [],
         recommendations = []\<rparr>"]
  by auto

section \<open>Hazard avoidance\<close>











section \<open>Route distance and navigation state\<close>

lemma fold_add_sum:
  "fold (\<lambda>i acc. acc + f i) [0 ..< n] (a::real) = a + (\<Sum>i<n. f i)"
  by (induction n) simp_all

lemma legDistance_Cons: "legDistance (a # ws) (Suc i) = legDistance ws i"
  by (simp add: legDistance_def)

lemma sum_legs_pairs:
  "(\<Sum>i<length ws - 1. legDistance ws i) = consecutivePairDistances ws"
proof (induction ws rule: consecutivePairDistances.induct)
  case (1 a b rest)
  have "(\<Sum>i<length (a # b # rest) - 1. legDistance (a # b # rest) i)
      = (\<Sum>i<Suc (length rest). legDistance (a # b # rest) i)" by simp
  also have "\<dots> = legDistance (a # b # rest) 0 + (\<Sum>i<length rest. legDistance (a # b # rest) (Suc i))"
    by (rule sum.lessThan_Suc_shift)
  also have "\<dots> = calculateDistance (lat a) (lon a) (lat b) (lon b) + (\<Sum>i<length (b # rest) - 1. legDistance (b # rest) i)"
    by (simp add: legDistance_Cons) (simp add: legDistance_def)
  finally show ?case using 1 by simp
qed simp_all

lemma calculateRouteDistance_pairs: "calculateRouteDistance ws = consecutivePairDistances ws"
  using sum_legs_pairs [of ws] by (simp add: calculateRouteDistance_def fold_add_sum)

text \<open>
  Claim C5. When the current waypoint index is at or past the last waypoint index (no
  waypoint follows it), \<open>calculateNavigationState\<close> returns the terminal snapshot: no next
  waypoint, distance, bearing and time to it 0, progress 100, whatever the position. When
  a waypoint follows, it is the next waypoint, and the progress is the sum of the leg
  distances of the indices before the current one, divided by the total distance of the
  route's waypoints, times 100. (With a total of 0 the quotient is 0 in HOL and not a
  number in JavaScript.)
\<close>

theorem C5_calculateNavigationState:
  "(length (waypoints r) \<le> idx + 1 \<longrightarrow>
      nextWaypoint (calculateNavigationState cp r idx) = None \<and>
      distanceToNext (calculateNavigationState cp r idx) = 0 \<and>
      bearingToNext (calculateNavigationState cp r idx) = 0 \<and>
      etaToNext (calculateNavigationState cp r idx) = 0 \<and>
      progress (calculateNavigationState cp r idx) = 100) \<and>
   (idx + 1 < length (waypoints r) \<longrightarrow>
      nextWaypoint (calculateNavigationState cp r idx) =
        Some (waypoints r ! (idx + 1)) \<and>
      progress (calculateNavigationState cp r idx) =
        (\<Sum>i<idx.
            calculateDistance (lat (waypoints r ! i)) (lon (waypoints r ! i))
              (lat (waypoints r ! (i + 1))) (lon (waypoints r ! (i + 1)))) /
        consecutivePairDistances (waypoints r) * 100)"
  by (simp add: calculateNavigationState_def element_def Let_def fold_add_sum
      calculateRouteDistance_pairs legDistance_def)

theorem C5_calculateNavigationState_witness:
  "length (waypoints exampleRoute) \<le> 1 + 1 \<and>
   nextWaypoint (calculateNavigationState \<lparr>lat = 7, lon = 8, heading = 0, speed = 3\<rparr>
     exampleRoute 1) = None \<and>
   progress (calculateNavigationState \<lparr>lat = 7, lon = 8, heading = 0, speed = 3\<rparr>
     exampleRoute 1) = 100 \<and>
   0 + 1 < length (waypoints exampleRoute) \<and>
   progress (calculateNavigationState \<lparr>lat = 7, lon = 8, heading = 0, speed = 3\<rparr>
     exampleRoute 0) = 0"
  using C5_calculateNavigationState
      [of exampleRoute 1 "\<lparr>lat = 7, lon = 8, heading = 0, speed = 3\<rparr>"]
    C5_calculateNavigationState
      [of exampleRoute 0 "\<lparr>lat = 7, lon = 8, heading = 0, speed = 3\<rparr>"]
  by simp

section \<open>Adding a waypoint\<close>

lemma splice_position:
  "splice xs k v = take (nat (if k < 0 then max (int (length xs) + k) 0 else min k (int (length xs)))) xs @ [v] @
     drop (nat (if k < 0 then max (int (length xs) + k) 0 else min k (int (length xs)))) xs"
  by (simp add: splice_def Let_def)

lemma insert_inside_keeps_ends:
  assumes "0 < p" "p < length xs"
  shows "hd (take p xs @ [v] @ drop p xs) = hd xs \<and> last (take p xs @ [v] @ drop p xs) = last xs
         \<and> take p xs @ [v] @ drop p xs \<noteq> []"
proof -
  from assms have t: "take p xs \<noteq> []" and d: "drop p xs \<noteq> []" by auto
  have "hd (take p xs @ [v] @ drop p xs) = hd (take p xs)" using t by simp
  also have "\<dots> = hd xs" using assms by (simp add: hd_take)
  finally have 1: "hd (take p xs @ [v] @ drop p xs) = hd xs" .
  have "last (take p xs @ [v] @ drop p xs) = last (drop p xs)" using d by simp
  also have "\<dots> = last xs" using assms by (simp add: last_drop)
  finally show ?thesis using 1 by simp
qed

lemma addWaypoint_array:
  assumes "waypoints r < length h"
  shows "fst (addWaypoint h gid r wp insertIndex) =
           h @ [splice (h ! waypoints r)
                  (case insertIndex of Some k \<Rightarrow> k | None \<Rightarrow> int (length (h ! waypoints r)) - 1)
                  \<lparr>lat = lat wp, lon = lon wp, name = name wp, wid = gid, timestamp = None, wtype = Waypoint\<rparr>]"
    and "waypoints (snd (addWaypoint h gid r wp insertIndex)) = length h"
    and "totalDistance (snd (addWaypoint h gid r wp insertIndex)) =
           calculateRouteDistance (fst (addWaypoint h gid r wp insertIndex) ! length h)"
    and "estimatedTime (snd (addWaypoint h gid r wp insertIndex)) =
           totalDistance (snd (addWaypoint h gid r wp insertIndex)) / averageSpeed r"
    and "rid (snd (addWaypoint h gid r wp insertIndex)) = rid r"
    and "rname (snd (addWaypoint h gid r wp insertIndex)) = rname r"
    and "createdAt (snd (addWaypoint h gid r wp insertIndex)) = createdAt r"
    and "averageSpeed (snd (addWaypoint h gid r wp insertIndex)) = averageSpeed r"
  using assms
  by (cases insertIndex; simp add: addWaypoint_def alloc_def spliceAt_def Let_def nth_append)+

lemma splice_inside_keeps_ends:
  assumes "xs \<noteq> []" "insidePosition (length xs) (Some k)"
  shows "hd (splice xs k v) = hd xs \<and> last (splice xs k v) = last xs \<and> splice xs k v \<noteq> []"
proof -
  define p where "p = nat (if k < 0 then max (int (length xs) + k) 0 else min k (int (length xs)))"
  have "0 < p \<and> p < length xs"
    using assms by (auto simp: p_def insidePosition_def)
  then show ?thesis
    using insert_inside_keeps_ends [of p xs v] unfolding splice_position p_def by simp
qed

lemma splice_default_keeps_ends:
  assumes "2 \<le> length xs"
  shows "hd (splice xs (int (length xs) - 1) v) = hd xs \<and>
         last (splice xs (int (length xs) - 1) v) = last xs \<and>
         splice xs (int (length xs) - 1) v \<noteq> []"
proof -
  have "insidePosition (length xs) (Some (int (length xs) - 1))"
    using assms by (simp add: insidePosition_def)
  moreover have "xs \<noteq> []" using assms by auto
  ultimately show ?thesis by (rule splice_inside_keeps_ends [rotated])
qed

lemma two_waypoints:
  assumes "ws \<noteq> []" "wtype (hd ws) = Start" "wtype (last ws) = Destination"
  shows "2 \<le> length (ws :: waypoint list)"
proof (cases ws)
  case Nil
  then show ?thesis using assms by simp
next
  case (Cons a rest)
  then show ?thesis using assms by (cases rest) auto
qed

text \<open>
  Claim C7, as the code has it. For a route whose array reference is valid,
  \<open>addWaypoint\<close> leaves every array that existed unchanged, the route's own among them,
  and returns a route on a newly allocated array; the total distance is the sum of the
  distances of the consecutive pairs of the new sequence and the estimated time is the
  total distance divided by the route's average speed, for every insert index. When the
  route's first waypoint is start-typed and its last destination-typed, they still are
  provided the insert index is omitted or puts the new waypoint strictly inside the
  sequence. (With an average speed of 0 the quotient is 0 in HOL and not finite in
  JavaScript.)
\<close>

theorem C7_addWaypoint_amended:
  assumes valid: "waypoints r < length h"
  shows "(\<forall>a<length h. fst (addWaypoint h gid r wp insertIndex) ! a = h ! a) \<and>
         waypoints (snd (addWaypoint h gid r wp insertIndex)) = length h \<and>
         length (fst (addWaypoint h gid r wp insertIndex)) = length h + 1 \<and>
         totalDistance (snd (addWaypoint h gid r wp insertIndex)) =
           consecutivePairDistances (fst (addWaypoint h gid r wp insertIndex) ! length h) \<and>
         estimatedTime (snd (addWaypoint h gid r wp insertIndex)) =
           totalDistance (snd (addWaypoint h gid r wp insertIndex)) / averageSpeed r \<and>
         (h ! waypoints r \<noteq> [] \<and> wtype (hd (h ! waypoints r)) = Start \<and>
          wtype (last (h ! waypoints r)) = Destination \<and>
          insidePosition (length (h ! waypoints r)) insertIndex \<longrightarrow>
            fst (addWaypoint h gid r wp insertIndex) ! length h \<noteq> [] \<and>
            wtype (hd (fst (addWaypoint h gid r wp insertIndex) ! length h)) = Start \<and>
            wtype (last (fst (addWaypoint h gid r wp insertIndex) ! length h)) = Destination)"
proof -
  let ?w = "\<lparr>lat = lat wp, lon = lon wp, name = name wp, wid = gid, timestamp = None,
             wtype = Waypoint\<rparr>"
  let ?xs = "h ! waypoints r"
  let ?k = "case insertIndex of Some k \<Rightarrow> k | None \<Rightarrow> int (length ?xs) - 1"
  note a = addWaypoint_array [OF valid, of gid wp insertIndex]
  have new: "fst (addWaypoint h gid r wp insertIndex) ! length h = splice ?xs ?k ?w"
    by (simp add: a(1))
  have old: "\<forall>a<length h. fst (addWaypoint h gid r wp insertIndex) ! a = h ! a"
    by (simp add: a(1) nth_append)
  have len: "length (fst (addWaypoint h gid r wp insertIndex)) = length h + 1"
    by (simp add: a(1))
  have ends: "hd (splice ?xs ?k ?w) = hd ?xs \<and> last (splice ?xs ?k ?w) = last ?xs \<and>
              splice ?xs ?k ?w \<noteq> []"
    if nonempty: "?xs \<noteq> []" and first: "wtype (hd ?xs) = Start"
      and final: "wtype (last ?xs) = Destination"
      and inside: "insidePosition (length ?xs) insertIndex"
  proof (cases insertIndex)
    case None
    have two: "2 \<le> length ?xs" using two_waypoints [OF nonempty first final] .
    show ?thesis using None splice_default_keeps_ends [OF two] by simp
  next
    case (Some k)
    then show ?thesis using splice_inside_keeps_ends [OF nonempty, of k] inside by simp
  qed
  show ?thesis
    using old len ends a(2) a(4)
    unfolding new a(3) [unfolded new] calculateRouteDistance_pairs
    by simp
qed

theorem C7_addWaypoint_counterexample:
  "wtype (hd (exampleHeap ! waypoints exampleRouteRef)) = Start \<and>
   wtype (last (exampleHeap ! waypoints exampleRouteRef)) = Destination \<and>
   wtype (hd (fst (addWaypoint exampleHeap ''w1'' exampleRouteRef examplePoint (Some 0)) !
              waypoints (snd (addWaypoint exampleHeap ''w1'' exampleRouteRef examplePoint (Some 0)))))
     \<noteq> Start"
  by (simp add: addWaypoint_def alloc_def spliceAt_def splice_def Let_def)

theorem C7_addWaypoint_witness:
  "waypoints exampleRouteRef < length exampleHeap \<and>
   insidePosition (length (exampleHeap ! waypoints exampleRouteRef)) (Some 1) \<and>
   fst (addWaypoint exampleHeap ''w1'' exampleRouteRef examplePoint (Some 1)) ! 0 =
     exampleHeap ! 0 \<and>
   wtype (hd (fst (addWaypoint exampleHeap ''w1'' exampleRouteRef examplePoint (Some 1)) ! 1))
     = Start \<and>
   wtype (last (fst (addWaypoint exampleHeap ''w1'' exampleRouteRef examplePoint (Some 1)) ! 1))
     = Destination"
  using C7_addWaypoint_amended [of exampleRouteRef exampleHeap "''w1''" examplePoint "Some 1"]
  by (simp add: insidePosition_def)

section \<open>Route analysis: attached hazards, minimum depth, verdict\<close>

text \<open>
  What the analysis computes, for every list of fetched hazards: the attached hazards
  (\<open>analyze_hazards\<close>), the verdict (\<open>analyze_unsafe_iff\<close>: unsafe exactly when a critical
  hazard is attached or the minimum depth is known and the test
  \<open>minDepth >= vesselDraft + 1.0\<close> fails), and, when the minimum depth is not \<open>NaN\<close>, the
  verdict in the words of claim C1 (\<open>analyze_unsafe_iff_numeric\<close>). The example of the
  claim, a critical hazard on the leg from (0, 0) to (0, 1), is \<open>critical_example\<close>.
\<close>

lemma js_less_irrefl: "\<not> js_less a a"
  by (cases a) simp_all

lemma js_less_trans: "js_less a b \<Longrightarrow> js_less b c \<Longrightarrow> js_less a c"
  by (cases a; cases b; cases c) simp_all

lemma js_ge_iff: "a \<noteq> NaN \<Longrightarrow> b \<noteq> NaN \<Longrightarrow> js_ge a b \<longleftrightarrow> \<not> js_less a b"
  by (cases a; cases b) simp_all

lemma js_ge_not_NaN: "js_ge a b \<Longrightarrow> a \<noteq> NaN \<and> b \<noteq> NaN"
  by (cases a; cases b) simp_all






lemma js_NaN [simp]: "\<not> js_less NaN b" "\<not> js_less a NaN" "\<not> js_ge NaN b" "\<not> js_ge a NaN"
  by (cases b; simp; fail) (cases a; simp; fail)+

lemma checkHazard_routeHazards:
  "routeHazards (checkHazard sm ws i h sc) =
     routeHazards sc @ (if withinBuffer sm ws i h then [attach ws i h] else [])"
  by (simp add: checkHazard_def withinBuffer_def Let_def split: option.splits depthField.splits)

lemma inner_routeHazards:
  "routeHazards (fold (checkHazard sm ws i) hs sc) =
     routeHazards sc @ map (attach ws i) (filter (withinBuffer sm ws i) hs)"
  by (induction hs arbitrary: sc) (simp_all add: checkHazard_routeHazards)

lemma outer_routeHazards:
  "routeHazards (fold (\<lambda>i sc. fold (checkHazard sm ws i) hs sc) [0 ..< n] sc) =
     routeHazards sc @
     concat (map (\<lambda>i. map (attach ws i) (filter (withinBuffer sm ws i) hs)) [0 ..< n])"
  by (induction n) (simp_all add: inner_routeHazards)

lemma checkHazard_scanWarnings:
  "\<not> withinBuffer sm ws i h \<Longrightarrow> scanWarnings (checkHazard sm ws i h sc) = scanWarnings sc"
  by (simp add: checkHazard_def withinBuffer_def Let_def split: option.splits depthField.splits)

lemma analyze_hazards:
  "hazards (analyzeRouteHazards fetch ws vd sm) =
     concat (map (\<lambda>i. map (attach ws i)
                (filter (withinBuffer sm ws i) (fetch (paddedBoundingBox ws))))
             [0 ..< length ws - 1])"
  by (simp add: analyzeRouteHazards_def Let_def outer_routeHazards)


lemma analyze_isSafe:
  "isSafe (analyzeRouteHazards fetch ws vd sm) \<longleftrightarrow>
     (\<forall>a \<in> set (hazards (analyzeRouteHazards fetch ws vd sm)). severity (hazard a) \<noteq> critical) \<and>
     (\<forall>m. minDepth (analyzeRouteHazards fetch ws vd sm) = Some m \<longrightarrow> js_ge m (Finite (vd + 1)))"
  by (auto simp: analyzeRouteHazards_def Let_def filter_empty_conv split: option.splits)

lemma critical_attached_iff:
  "(\<exists>a \<in> set (hazards (analyzeRouteHazards fetch ws vd sm)). severity (hazard a) = critical) \<longleftrightarrow>
   (\<exists>h \<in> set (fetch (paddedBoundingBox ws)). severity h = critical \<and>
      (\<exists>i. i + 1 < length ws \<and> withinBuffer sm ws i h))"
  unfolding analyze_hazards by (auto simp: less_diff_conv; blast)

lemma analyze_unsafe_iff:
  "\<not> isSafe (analyzeRouteHazards fetch ws vd sm) \<longleftrightarrow>
     (\<exists>h \<in> set (fetch (paddedBoundingBox ws)). severity h = critical \<and>
        (\<exists>i. i + 1 < length ws \<and> withinBuffer sm ws i h)) \<or>
     (\<exists>m. minDepth (analyzeRouteHazards fetch ws vd sm) = Some m \<and> \<not> js_ge m (Finite (vd + 1)))"
proof -
  have "\<not> isSafe (analyzeRouteHazards fetch ws vd sm) \<longleftrightarrow>
     (\<exists>a \<in> set (hazards (analyzeRouteHazards fetch ws vd sm)). severity (hazard a) = critical) \<or>
     (\<exists>m. minDepth (analyzeRouteHazards fetch ws vd sm) = Some m \<and> \<not> js_ge m (Finite (vd + 1)))"
    unfolding analyze_isSafe [of fetch ws vd sm] by simp
  then show ?thesis unfolding critical_attached_iff .
qed

lemma analyze_unsafe_iff_numeric:
  assumes "minDepth (analyzeRouteHazards fetch ws vd sm) \<noteq> Some NaN"
  shows "\<not> isSafe (analyzeRouteHazards fetch ws vd sm) \<longleftrightarrow>
     (\<exists>h \<in> set (fetch (paddedBoundingBox ws)). severity h = critical \<and>
        (\<exists>i. i + 1 < length ws \<and> withinBuffer sm ws i h)) \<or>
     (\<exists>m. minDepth (analyzeRouteHazards fetch ws vd sm) = Some m \<and> js_less m (Finite (vd + 1)))"
proof -
  have "\<not> js_ge m (Finite (vd + 1)) \<longleftrightarrow> js_less m (Finite (vd + 1))"
    if "minDepth (analyzeRouteHazards fetch ws vd sm) = Some m" for m
    using that assms js_ge_iff [of m "Finite (vd + 1)"] by auto
  then show ?thesis unfolding analyze_unsafe_iff by auto
qed












lemma product_exact: "1 / 2 ^ 1075 < a * a \<Longrightarrow> product a a = a * a"
  by (simp add: product_def)

lemma product_zero [simp]: "product 0 0 = 0"
  by (simp add: product_def)

lemma equator_leg_distance:
  assumes "lat p = 0" "lat s = 0" "lat e = 0" "1 \<le> lon e - lon s"
  shows "lon s \<le> lon p \<Longrightarrow> lon p \<le> lon e \<Longrightarrow> distanceFromLineSegment p s e = 0"
    and "lon e \<le> lon p \<Longrightarrow> distanceFromLineSegment p s e = (lon p - lon e) * 111320"
proof -
  define dx where "dx = lon e * 111320 - lon s * 111320"
  define t where "t = ((lon p * 111320 - lon s * 111320) * dx) / (dx * dx)"
  have dxpos: "0 < dx" using assms(4) by (simp add: dx_def)
  have "1 \<le> dx" using assms(4) by (simp add: dx_def)
  then have "1 * 1 \<le> dx * dx" by (intro mult_mono) simp_all
  moreover have "1 / 2 ^ 1075 < (1::real)" by simp
  ultimately have exact: "product dx dx = dx * dx" by (intro product_exact) simp
  have t: "t = (lon p - lon s) / (lon e - lon s)"
  proof -
    have "t = (lon p * 111320 - lon s * 111320) / dx" using dxpos by (simp add: t_def)
    also have "\<dots> = ((lon p - lon s) * 111320) / ((lon e - lon s) * 111320)"
      unfolding dx_def by (simp only: left_diff_distrib)
    also have "\<dots> = (lon p - lon s) / (lon e - lon s)"
      by (rule mult_divide_mult_cancel_right) simp
    finally show ?thesis .
  qed
  have d: "distanceFromLineSegment p s e =
      sqrt ((lon p * 111320 - (lon s * 111320 + max 0 (min 1 t) * dx)) *
            (lon p * 111320 - (lon s * 111320 + max 0 (min 1 t) * dx)))"
    using dxpos assms(1-3) exact [unfolded dx_def]
    by (simp add: distanceFromLineSegment_def toMeters_def Let_def dx_def t_def)
  have den: "0 < lon e - lon s" using assms(4) by simp
  {
    assume a: "lon s \<le> lon p" "lon p \<le> lon e"
    have "0 \<le> t" using a den by (simp add: t)
    moreover have "t \<le> 1" using a den by (simp add: t)
    ultimately have "max 0 (min 1 t) = t" by simp
    moreover have "t * dx = (lon p - lon s) * 111320"
      using den by (simp add: t dx_def field_simps)
    ultimately show "distanceFromLineSegment p s e = 0" unfolding d by (simp add: algebra_simps)
  }
  {
    assume a: "lon e \<le> lon p"
    have "1 \<le> t" using a den by (simp add: t)
    then have "max 0 (min 1 t) = 1" by simp
    then have "distanceFromLineSegment p s e =
        sqrt (((lon p - lon e) * 111320) * ((lon p - lon e) * 111320))"
      unfolding d by (simp add: dx_def algebra_simps)
    also have "\<dots> = \<bar>(lon p - lon e) * 111320\<bar>" by (rule real_sqrt_abs2)
    also have "\<dots> = (lon p - lon e) * 111320" using a by simp
    finally show "distanceFromLineSegment p s e = (lon p - lon e) * 111320" .
  }
qed

lemma example_within:
  assumes "lat a = 0" "lon a = 0" "lat b = 0" "lon b = 1"
    and "lat h = 0" "lon h = 1 / 2" "radius h = Some 100"
  shows "distanceFromLineSegment \<lparr>lat = lat h, lon = lon h\<rparr> ([a, b] ! 0) ([a, b] ! (0 + 1)) = 0"
    and "withinBuffer 500 [a, b] 0 h"
proof -
  show d: "distanceFromLineSegment \<lparr>lat = lat h, lon = lon h\<rparr> ([a, b] ! 0) ([a, b] ! (0 + 1)) = 0"
    using assms by (intro equator_leg_distance(1)) simp_all
  show "withinBuffer 500 [a, b] 0 h"
    unfolding withinBuffer_def d using assms(7) by (simp add: hazardBuffer_def)
qed

lemma attached_member:
  assumes "h \<in> set (fetch (paddedBoundingBox ws))" "i + 1 < length ws" "withinBuffer sm ws i h"
  shows "\<lparr>hazard = h,
      distanceFromRoute = distanceFromLineSegment \<lparr>lat = lat h, lon = lon h\<rparr> (ws ! i) (ws ! (i + 1)),
      waypointSegment = i\<rparr> \<in> set (hazards (analyzeRouteHazards fetch ws vd sm))"
  unfolding analyze_hazards using assms by (auto simp: less_diff_conv)

lemma farRock_not_within:
  "\<not> withinBuffer 500 [exampleStart, exampleDestination] 0 (farRock d)"
proof -
  have "distanceFromLineSegment \<lparr>lat = lat (farRock d), lon = lon (farRock d)\<rparr>
          ([exampleStart, exampleDestination] ! 0) ([exampleStart, exampleDestination] ! (0 + 1))
        = (5 - 1) * 111320"
    using equator_leg_distance(2) [of "\<lparr>lat = 0, lon = 5\<rparr>" exampleStart exampleDestination]
    by simp
  then show ?thesis unfolding withinBuffer_def by (simp add: hazardBuffer_def)
qed

lemma farRock_scan:
  "checkHazard 500 [exampleStart, exampleDestination] 0 (farRock d) sc =
     (case d of
        Undefined \<Rightarrow> sc
      | Null \<Rightarrow>
          (case scanMinDepth sc of
             None \<Rightarrow> sc\<lparr>scanMinDepth := None\<rparr>
           | Some m \<Rightarrow> if js_less (Finite 0) m then sc\<lparr>scanMinDepth := None\<rparr> else sc)
      | Number v \<Rightarrow>
          (case scanMinDepth sc of
             None \<Rightarrow> sc\<lparr>scanMinDepth := Some v\<rparr>
           | Some m \<Rightarrow> if js_less v m then sc\<lparr>scanMinDepth := Some v\<rparr> else sc))"
  using farRock_not_within [of d] unfolding withinBuffer_def
  by (cases d) (simp_all add: checkHazard_def Let_def)

lemma critical_example:
  assumes "lat a = 0" "lon a = 0" "lat b = 0" "lon b = 1"
    and "h \<in> set (fetch (paddedBoundingBox [a, b]))"
    and "lat h = 0" "lon h = 1 / 2" "radius h = Some 100" "severity h = critical"
  shows "\<not> isSafe (analyzeRouteHazards fetch [a, b] vd 500)"
    and "\<lparr>hazard = h, distanceFromRoute = 0, waypointSegment = 0\<rparr>
           \<in> set (hazards (analyzeRouteHazards fetch [a, b] vd 500))"
proof -
  have w: "withinBuffer 500 [a, b] 0 h"
    and d: "distanceFromLineSegment \<lparr>lat = lat h, lon = lon h\<rparr> ([a, b] ! 0) ([a, b] ! (0 + 1)) = 0"
    by (rule example_within [OF assms(1-4) assms(6-8)])+
  show "\<not> isSafe (analyzeRouteHazards fetch [a, b] vd 500)"
    unfolding analyze_unsafe_iff using assms w by (intro disjI1 bexI [of _ h]) auto
  have "\<lparr>hazard = h,
      distanceFromRoute = distanceFromLineSegment \<lparr>lat = lat h, lon = lon h\<rparr> ([a, b] ! 0) ([a, b] ! (0 + 1)),
      waypointSegment = 0\<rparr> \<in> set (hazards (analyzeRouteHazards fetch [a, b] vd 500))"
    using assms w by (intro attached_member) simp_all
  then show "\<lparr>hazard = h, distanceFromRoute = 0, waypointSegment = 0\<rparr>
        \<in> set (hazards (analyzeRouteHazards fetch [a, b] vd 500))"
    unfolding d .
qed

lemma null_depth_resets_minimum:
  "minDepth (analyzeRouteHazards (\<lambda>box. [farRock (Number (Finite (1 / 2))), farRock Null])
      [exampleStart, exampleDestination] 2 500) = None \<and>
   isSafe (analyzeRouteHazards (\<lambda>box. [farRock (Number (Finite (1 / 2))), farRock Null])
      [exampleStart, exampleDestination] 2 500)"
  by (simp add: analyzeRouteHazards_def Let_def farRock_scan)





section \<open>The navigation session\<close>

lemma start_ok:
  assumes "startNavigation t0 r s0 = (None, s1)"
  shows "route s1 = Some r" "isNavigating s1" "currentWaypointIndex s1 = 0"
    "watchId s1 \<noteq> None"
  using assms
  by (auto simp: startNavigation_def Let_def requestPermissions_def startGPSTracking_def
      startCompassTracking_def emit_def cacheRouteData_def stopNavigation_def
      split: if_splits option.splits)

lemma example_started:
  "startNavigation 0 exampleRoute listeningSystem =
     (None, snd (startNavigation 0 exampleRoute listeningSystem))"
  "config (snd (startNavigation 0 exampleRoute listeningSystem)) = defaultConfig"
  by (simp_all add: startNavigation_def Let_def requestPermissions_def startGPSTracking_def
      startCompassTracking_def emit_def cacheRouteData_def constructed_def on_def)

lemma pause_state:
  "pauseNavigation s =
     s\<lparr>isNavigating := False,
       effects := effects s @ [Emit ''navigationPaused'' NoPayload (listeners s ''navigationPaused'')]\<rparr>"
  by (simp add: pauseNavigation_def emit_def)

lemma paused_update: "\<not> isNavigating s \<Longrightarrow> handlePositionUpdate now c s = (None, s)"
  by (simp add: handlePositionUpdate_def split: option.splits)

lemma resume_navigating: "route s \<noteq> None \<Longrightarrow> isNavigating (resumeNavigation s)"
  by (auto simp: resumeNavigation_def emit_def)

text \<open>
  Claim C10. \<open>pauseNavigation\<close> changes the \<open>isNavigating\<close> flag and nothing else of the
  state (it emits \<open>navigationPaused\<close>): the position watch and the orientation listeners
  stay registered, so the session still receives position updates. While paused, a
  position update returns at once and leaves the whole state as it was: none of the
  checks runs and nothing is emitted. \<open>resumeNavigation\<close>, with a route set, makes
  \<open>isNavigating\<close> true again.
\<close>

theorem C10_pause_and_resume:
  "pauseNavigation s =
     s\<lparr>isNavigating := False,
       effects := effects s @ [Emit ''navigationPaused'' NoPayload (listeners s ''navigationPaused'')]\<rparr> \<and>
   watchId (pauseNavigation s) = watchId s \<and>
   activeWatches (pauseNavigation s) = activeWatches s \<and>
   orientationListeners (pauseNavigation s) = orientationListeners s \<and>
   handlePositionUpdate now c (pauseNavigation s) = (None, pauseNavigation s) \<and>
   (route s \<noteq> None \<longrightarrow> isNavigating (resumeNavigation (pauseNavigation s)))"
  using paused_update [of "pauseNavigation s" now c] resume_navigating [of "pauseNavigation s"]
  by (simp add: pause_state)

theorem C10_pause_and_resume_witness:
  "route (snd (startNavigation 0 exampleRoute listeningSystem)) \<noteq> None \<and>
   handlePositionUpdate 1000
     \<lparr>latitude = 0, longitude = 1, gpsSpeed = Some 2, gpsHeading = Some 90\<rparr>
     (pauseNavigation (snd (startNavigation 0 exampleRoute listeningSystem))) =
     (None, pauseNavigation (snd (startNavigation 0 exampleRoute listeningSystem))) \<and>
   isNavigating
     (resumeNavigation (pauseNavigation (snd (startNavigation 0 exampleRoute listeningSystem))))"
proof -
  have r: "route (snd (startNavigation 0 exampleRoute listeningSystem)) \<noteq> None"
    using start_ok(1) [OF example_started(1)] by simp
  from C10_pause_and_resume [of "snd (startNavigation 0 exampleRoute listeningSystem)" 1000
      "\<lparr>latitude = 0, longitude = 1, gpsSpeed = Some 2, gpsHeading = Some 90\<rparr>"] r
  show ?thesis by blast
qed

subsection \<open>Reaching the destination\<close>


lemma destination_reached:
  assumes "route s = Some r" "waypoints r \<noteq> []"
  shows
    "handleDestinationReached now s =
      (None, stopNavigation
         (emit ''destinationReached'' (DestinationPayload (last (waypoints r)))
           (emitAlert \<lparr>atype = destination_reached,
                       message = DestinationReachedText (name (last (waypoints r))),
                       aseverity = alert_success, atimestamp = now, autoClose = None\<rparr>
             (s\<lparr>effects := effects s @
                  (if enableVibration (config s) \<and> vibrateSupported s
                   then [Vibrate [300, 100, 300, 100, 300]] else []) @
                  (if enableVoiceAlerts (config s) \<and> speechSupported s
                   then [Speak (''Destination reached: '' @ name (last (waypoints r)))]
                   else [])\<rparr>))))"
proof -
  have e: "element (waypoints r) (length (waypoints r) - 1) = Some (last (waypoints r))"
    using assms(2) by (simp add: element_def last_conv_nth)
  show ?thesis
    using assms(1) e by (simp add: handleDestinationReached_def Let_def)
qed









subsection \<open>Course deviation\<close>

lemma sin_degree_pos: "0 < sin (pi / 180)"
  by (intro sin_gt_zero) (use pi_gt_zero in simp_all)

lemma bearing_due_west: "calculateBearing 0 2 0 1 = 270"
proof -
  have y: "sin (toRadians (1 - 2)) * cos (toRadians 0) < 0"
    using sin_degree_pos by (simp add: toRadians_def)
  have x: "cos (toRadians 0) * sin (toRadians 0) -
           sin (toRadians 0) * cos (toRadians 0) * cos (toRadians (1 - 2)) = 0"
    by (simp add: toRadians_def)
  have a: "atan2 (sin (toRadians (1 - 2)) * cos (toRadians 0))
             (cos (toRadians 0) * sin (toRadians 0) -
              sin (toRadians 0) * cos (toRadians 0) * cos (toRadians (1 - 2))) = - (pi / 2)"
    unfolding x using y by (simp add: atan2_def)
  have d: "toDegrees (- (pi / 2)) = - 90" by (simp add: toDegrees_def)
  have r: "js_rem (- 90 + 360) 360 = 270" by (simp add: js_rem_def trunc_def)
  show ?thesis unfolding calculateBearing_def Let_def a d r ..
qed

lemma checkCourseDeviation_effects:
  assumes "nextWaypoint ns = Some w"
  shows "checkCourseDeviation now ns s =
     s\<lparr>effects := effects s @
       (if 45 < min \<bar>bearingToNext ns - nsHeading ns\<bar> (360 - \<bar>bearingToNext ns - nsHeading ns\<bar>)
        then [Emit ''alert''
                (AlertPayload \<lparr>atype = course_correction,
                   message = OffCourse
                     (if 180 < min \<bar>bearingToNext ns - nsHeading ns\<bar>
                                (360 - \<bar>bearingToNext ns - nsHeading ns\<bar>)
                      then TurnLeft else TurnRight)
                     (round (bearingToNext ns)),
                   aseverity = alert_warning, atimestamp = now, autoClose = Some True\<rparr>)
                (listeners s ''alert'')]
        else []) @
       (if nsSpeed ns < 0.5
        then [Emit ''alert''
                (AlertPayload \<lparr>atype = low_speed, message = VeryLowSpeed,
                   aseverity = alert_info, atimestamp = now, autoClose = Some True\<rparr>)
                (listeners s ''alert'')]
        else [])\<rparr>"
  using assms by (simp add: checkCourseDeviation_def Let_def emitAlert_def emit_def)

lemma course_alert_iff:
  assumes "nextWaypoint ns = Some w"
  shows "(\<exists>a cb. Emit ''alert'' (AlertPayload a) cb
              \<in> set (drop (length (effects s)) (effects (checkCourseDeviation now ns s))) \<and>
            atype a = course_correction) \<longleftrightarrow>
         45 < min \<bar>bearingToNext ns - nsHeading ns\<bar> (360 - \<bar>bearingToNext ns - nsHeading ns\<bar>)"
  unfolding checkCourseDeviation_effects [OF assms] by auto

lemma course_alert_never_left:
  assumes "nextWaypoint ns = Some w"
  shows "Emit ''alert'' (AlertPayload a) cb
           \<in> set (drop (length (effects s)) (effects (checkCourseDeviation now ns s))) \<Longrightarrow>
         message a \<noteq> OffCourse TurnLeft k"
  unfolding checkCourseDeviation_effects [OF assms] by (auto split: if_splits)

text \<open>
  Claim C4, where the code departs from it. The vessel is at (0, 2) on the equator
  heading north (0 degrees); the next waypoint is at (0, 1), due west, so the bearing to
  it is 270 degrees and the raw difference between bearing and heading is 270, more than
  180. The difference normalized into [0, 180] is 90, more than 45, and the alert is
  emitted (\<open>course_alert_iff\<close> is the first half of the claim, which holds); but its
  message says to turn right. The condition of the message tests the normalized
  difference, which never exceeds 180, so no message ever says left
  (\<open>course_alert_never_left\<close>).
\<close>

theorem C4_course_correction_turns_right:
  "bearingToNext (calculateNavigationState \<lparr>lat = 0, lon = 2, heading = 0, speed = 5\<rparr>
      exampleRoute 0) -
   nsHeading (calculateNavigationState \<lparr>lat = 0, lon = 2, heading = 0, speed = 5\<rparr>
      exampleRoute 0) = 270 \<and>
   checkCourseDeviation 1000
     (calculateNavigationState \<lparr>lat = 0, lon = 2, heading = 0, speed = 5\<rparr> exampleRoute 0)
     (constructed defaultConfig) =
   (constructed defaultConfig)
     \<lparr>effects :=
        [Emit ''alert''
           (AlertPayload \<lparr>atype = course_correction, message = OffCourse TurnRight 270,
                          aseverity = alert_warning, atimestamp = 1000,
                          autoClose = Some True\<rparr>) None]\<rparr>"
proof -
  have ns: "calculateNavigationState \<lparr>lat = 0, lon = 2, heading = 0, speed = 5\<rparr> exampleRoute 0 =
      \<lparr>currentPosition = \<lparr>lat = 0, lon = 2, heading = 0, speed = 5\<rparr>, nsHeading = 0, nsSpeed = 5,
       nextWaypoint = Some exampleDestination,
       distanceToNext = calculateDistance 0 2 0 1, bearingToNext = 270,
       etaToNext = calculateETA (calculateDistance 0 2 0 1) 5,
       progress = 0\<rparr>"
    by (simp add: calculateNavigationState_def element_def Let_def bearing_due_west)
  show ?thesis
    unfolding ns
    by (simp add: checkCourseDeviation_def Let_def emitAlert_def emit_def constructed_def)
qed

end
